theory Spec2Isabelle
  imports Complex_Main
begin

section \<open>The numpy operations used by circumcircle3.py\<close>

text \<open>
  The arrays of the program hold float64 (or int64) numbers, and numpy rounds, overflows
  and underflows where exact arithmetic does not. The operations of numpy that
  \<open>get_circle_params\<close> calls are therefore parameters of its model, over a type \<open>'s\<close> of
  scalars: what is proved for every such family of operations holds for the float64
  operations of the program. A 3-component array is a triple, a 3x3 array a triple of
  rows.
\<close>

type_synonym 's vec = "'s \<times> 's \<times> 's"
type_synonym 's mat = "'s vec \<times> 's vec \<times> 's vec"
type_synonym vec3 = "real \<times> real \<times> real"
type_synonym vec2 = "real \<times> real"
type_synonym mat3 = "vec3 \<times> vec3 \<times> vec3"

datatype error = IndexError

text \<open>
  \<open>fsub\<close>, \<open>fmul\<close> and \<open>fdiv\<close> are \<open>-\<close>, \<open>*\<close> and \<open>/\<close> on scalars, \<open>half\<close> is the literal
  \<open>0.5\<close>, \<open>np_sum_sq u\<close> is \<open>np.sum(u**2)\<close>, \<open>np_cross\<close> is \<open>np.cross\<close>, \<open>np_dot u v\<close> is
  \<open>u.dot(v)\<close>, \<open>linalg_norm\<close> is \<open>np.linalg.norm\<close> and \<open>linalg_solve\<close> is
  \<open>np.linalg.solve\<close>, which raises \<open>LinAlgError\<close> (the value \<open>None\<close>) or returns an
  array.
\<close>

record 's numpy =
  fsub :: "'s \<Rightarrow> 's \<Rightarrow> 's"
  fmul :: "'s \<Rightarrow> 's \<Rightarrow> 's"
  fdiv :: "'s \<Rightarrow> 's \<Rightarrow> 's"
  half :: 's
  np_sum_sq :: "'s vec \<Rightarrow> 's"
  np_cross :: "'s vec \<Rightarrow> 's vec \<Rightarrow> 's vec"
  np_dot :: "'s vec \<Rightarrow> 's vec \<Rightarrow> 's"
  linalg_norm :: "'s vec \<Rightarrow> 's"
  linalg_solve :: "'s mat \<Rightarrow> 's vec \<Rightarrow> 's vec option"

text \<open>\<open>u - v\<close> on arrays is \<open>-\<close> on each component.\<close>

fun arr_sub :: "'s numpy \<Rightarrow> 's vec \<Rightarrow> 's vec \<Rightarrow> 's vec" where
  "arr_sub np (u1, u2, u3) (v1, v2, v3) = (fsub np u1 v1, fsub np u2 v2, fsub np u3 v3)"

text \<open>\<open>u / s\<close> for an array and a scalar is \<open>/\<close> on each component.\<close>

fun arr_div :: "'s numpy \<Rightarrow> 's vec \<Rightarrow> 's \<Rightarrow> 's vec" where
  "arr_div np (u1, u2, u3) s = (fdiv np u1 s, fdiv np u2 s, fdiv np u3 s)"

section \<open>The operations in exact arithmetic\<close>

text \<open>
  The same operations over the reals. The float64 operations give these values whenever
  every intermediate result is a float64 number; the evaluations of
  \<open>get_circle_params\<close> below are at such inputs.
\<close>

fun vdiv :: "vec3 \<Rightarrow> real \<Rightarrow> vec3" where
  "vdiv (u1, u2, u3) s = (u1 / s, u2 / s, u3 / s)"

fun cross :: "vec3 \<Rightarrow> vec3 \<Rightarrow> vec3" where
  "cross (u1, u2, u3) (v1, v2, v3) =
     (u2 * v3 - u3 * v2, u3 * v1 - u1 * v3, u1 * v2 - u2 * v1)"

fun dot :: "vec3 \<Rightarrow> vec3 \<Rightarrow> real" where
  "dot (u1, u2, u3) (v1, v2, v3) = u1 * v1 + u2 * v2 + u3 * v3"

fun sum_sq :: "vec3 \<Rightarrow> real" where
  "sum_sq (u1, u2, u3) = u1\<^sup>2 + u2\<^sup>2 + u3\<^sup>2"

definition vnorm :: "vec3 \<Rightarrow> real" where
  "vnorm u = sqrt (dot u u)"

fun det3 :: "mat3 \<Rightarrow> real" where
  "det3 ((m11, m12, m13), (m21, m22, m23), (m31, m32, m33)) =
     m11 * (m22 * m33 - m23 * m32)
   - m12 * (m21 * m33 - m23 * m31)
   + m13 * (m21 * m32 - m22 * m31)"

text \<open>
  The solution of a 3x3 system in exact arithmetic, by Cramer's rule; a singular matrix
  raises \<open>LinAlgError\<close>, which is the value \<open>None\<close>.
\<close>

fun solve :: "mat3 \<Rightarrow> vec3 \<Rightarrow> vec3 option" where
  "solve ((m11, m12, m13), (m21, m22, m23), (m31, m32, m33)) (r1, r2, r3) =
     (let d = det3 ((m11, m12, m13), (m21, m22, m23), (m31, m32, m33))
      in if d = 0 then None
         else Some (det3 ((r1, m12, m13), (r2, m22, m23), (r3, m32, m33)) / d,
                   det3 ((m11, r1, m13), (m21, r2, m23), (m31, r3, m33)) / d,
                   det3 ((m11, m12, r1), (m21, m22, r2), (m31, m32, r3)) / d))"

definition exact :: "real numpy" where
  "exact = \<lparr>fsub = (-), fmul = (*), fdiv = (/), half = 1 / 2, np_sum_sq = sum_sq,
            np_cross = cross, np_dot = dot, linalg_norm = vnorm, linalg_solve = solve\<rparr>"

text \<open>
  \<open>np.isclose(x, y)\<close> with numpy's default tolerances: \<open>|x - y| <= atol + rtol * |y|\<close>,
  where \<open>atol\<close> and \<open>rtol\<close> are the float64 numbers written \<open>1e-08\<close> and \<open>1e-05\<close>, that is
  \<open>3022314549036573 / 2^78\<close> and \<open>5902958103587057 / 2^69\<close>. The program calls it with
  \<open>y = 0\<close> only, where the bound is \<open>atol\<close> itself.
\<close>

definition atol :: real where
  "atol = 3022314549036573 / 2 ^ 78"

definition rtol :: real where
  "rtol = 5902958103587057 / 2 ^ 69"

definition isclose :: "real \<Rightarrow> real \<Rightarrow> bool" where
  "isclose x y = (\<bar>x - y\<bar> \<le> atol + rtol * \<bar>y\<bar>)"

section \<open>Drawing\<close>

text \<open>
  The pygame surface is the list of line segments drawn on it so far;
  \<open>pygame.draw.line(screen, color, p, q, width)\<close> appends one. The camera class is
  not part of the file: its method \<open>world_to_screen\<close> is the parameter \<open>w2s\<close>, which
  gives \<open>None\<close> for a point without a projection.
\<close>

datatype 'col draw_call = Line 'col vec2 vec2 int

type_synonym 'col surface = "'col draw_call list"

definition draw_line3d ::
  "('cam \<Rightarrow> vec3 \<Rightarrow> vec2 option) \<Rightarrow> 'col surface \<Rightarrow> 'cam \<Rightarrow> 'col \<Rightarrow> vec3 \<Rightarrow> vec3 \<Rightarrow> int
   \<Rightarrow> 'col surface" where
  "draw_line3d w2s screen camera col start end' width =
     (let start2d = w2s camera start;
          end2d = w2s camera end'
      in if start2d \<noteq> None \<and> end2d \<noteq> None
         then screen @ [Line col (the start2d) (the end2d) width]
         else screen)"

text \<open>
  Lines 59 to 70 of \<open>draw_circle3d\<close>: the two vectors \<open>orth1\<close> and \<open>orth2\<close> that span
  the plane of the circle, in exact arithmetic.
\<close>

definition plane_basis :: "vec3 \<Rightarrow> vec3 \<times> vec3" where
  "plane_basis normal =
     (case normal of (n1, n2, n3) \<Rightarrow>
        let orth1 = (if isclose n1 0 then (1, 0, 0)
                     else if isclose n2 0 then (0, 1, 0)
                     else if isclose n3 0 then (0, 0, 1)
                     else (n2 * n3, - 2 * n1 * n3, n1 * n2));
            orth1 = vdiv orth1 (vnorm orth1);
            orth2 = cross normal orth1
        in (orth1, orth2))"

section \<open>The circumcircle\<close>

record 's node =
  position :: "'s vec"

record ('s, 'col) circumcircle =
  nodes :: "'s node list"
  color :: 'col

text \<open>
  The matrix \<open>A\<close> and the right-hand side \<open>rhs\<close> that \<open>get_circle_params\<close> builds
  from the three positions (lines 109 to 128).
\<close>

definition system_matrix :: "'s numpy \<Rightarrow> 's vec \<Rightarrow> 's vec \<Rightarrow> 's vec \<Rightarrow> 's mat" where
  "system_matrix np a b c =
     (case (a, b, c) of ((a1, a2, a3), (b1, b2, b3), (c1, c2, c3)) \<Rightarrow>
        let normal = np_cross np (arr_sub np b a) (arr_sub np c a)
        in ((fsub np b1 a1, fsub np b2 a2, fsub np b3 a3),
            (fsub np c1 b1, fsub np c2 b2, fsub np c3 b3),
            normal))"

definition system_rhs :: "'s numpy \<Rightarrow> 's vec \<Rightarrow> 's vec \<Rightarrow> 's vec \<Rightarrow> 's vec" where
  "system_rhs np a b c =
     (let a_norm2 = np_sum_sq np a;
          b_norm2 = np_sum_sq np b;
          c_norm2 = np_sum_sq np c;
          normal = np_cross np (arr_sub np b a) (arr_sub np c a)
      in (fmul np (half np) (fsub np b_norm2 a_norm2),
          fmul np (half np) (fsub np c_norm2 b_norm2),
          np_dot np a normal))"

text \<open>
  \<open>Circumcircle.get_circle_params\<close>. Reading \<open>self.nodes[i]\<close> for \<open>i < 3\<close> raises
  \<open>IndexError\<close> on a shorter list; the \<open>LinAlgError\<close> of the solver is caught and
  turned into the result \<open>None\<close>.
\<close>

definition get_circle_params ::
  "'s numpy \<Rightarrow> ('s, 'col, 'more) circumcircle_scheme \<Rightarrow> error + ('s vec \<times> 's vec \<times> 's) option" where
  "get_circle_params np self =
     (case nodes self of
        n0 # n1 # n2 # _ \<Rightarrow>
          (let a = position n0;
               b = position n1;
               c = position n2;
               normal = np_cross np (arr_sub np b a) (arr_sub np c a);
               A = system_matrix np a b c;
               rhs = system_rhs np a b c
           in (case linalg_solve np A rhs of
                 None \<Rightarrow> Inr None
               | Some center \<Rightarrow>
                   (let radius = linalg_norm np (arr_sub np center a)
                    in Inr (Some (center, arr_div np normal (linalg_norm np normal), radius)))))
      | _ \<Rightarrow> Inl IndexError)"

text \<open>
  The call of the method as a step on the program state: the result, and the object
  after the call. The body of the method assigns to no attribute of \<open>self\<close>, of a
  node or of a position array, and every numpy operation it uses (\<open>**\<close>, \<open>-\<close>, \<open>/\<close>,
  \<open>np.sum\<close>, \<open>np.cross\<close>, \<open>np.array\<close>, \<open>dot\<close>, \<open>np.linalg.solve\<close>,
  \<open>np.linalg.norm\<close>) allocates its result.
\<close>

definition get_circle_params_call ::
  "'s numpy \<Rightarrow> ('s, 'col, 'more) circumcircle_scheme
   \<Rightarrow> (error + ('s vec \<times> 's vec \<times> 's) option) \<times> ('s, 'col, 'more) circumcircle_scheme" where
  "get_circle_params_call np self = (get_circle_params np self, self)"

section \<open>Notions of the specification\<close>






section \<open>The result of get_circle_params\<close>






section \<open>The singularity test\<close>




section \<open>Values returned without a test of the divisor\<close>




section \<open>The algorithm of the specification\<close>



section \<open>Purity\<close>

lemma take3_positions:
  assumes "map position (take 3 (nodes self)) = map position (take 3 (nodes self'))"
  shows "get_circle_params np self = get_circle_params np self'"
proof (cases "nodes self")
  case Nil
  with assms show ?thesis by (simp add: get_circle_params_def)
next
  case c1: (Cons n0 r0)
  with assms obtain m0 s0 where d1: "nodes self' = m0 # s0" and p0: "position n0 = position m0"
    and e1: "map position (take 2 r0) = map position (take 2 s0)"
    by (cases "nodes self'") (auto simp: take_Cons')
  show ?thesis
  proof (cases r0)
    case Nil
    with e1 have "s0 = []" by simp
    with Nil c1 d1 show ?thesis by (simp add: get_circle_params_def)
  next
    case c2: (Cons n1 r1)
    with e1 obtain m1 s1 where d2: "s0 = m1 # s1" and p1: "position n1 = position m1"
      and e2: "map position (take 1 r1) = map position (take 1 s1)"
      by (cases s0) (auto simp: take_Cons')
    show ?thesis
    proof (cases r1)
      case Nil
      with e2 have "s1 = []" by simp
      with Nil c1 d1 c2 d2 show ?thesis by (simp add: get_circle_params_def)
    next
      case c3: (Cons n2 r2)
      with e2 obtain m2 s2 where d3: "s1 = m2 # s2" and p2: "position n2 = position m2"
        by (cases s1) (auto simp: take_Cons')
      from c1 c2 c3 d1 d2 d3 p0 p1 p2 show ?thesis
        by (simp add: get_circle_params_def)
    qed
  qed
qed

text \<open>
  C9. A call of \<open>get_circle_params\<close> leaves the object as it was, a second call
  gives the result of the first, and two objects whose first three node positions are
  equal give equal results, whatever their colour, further nodes or other fields.
\<close>

theorem get_circle_params_pure:
  "snd (get_circle_params_call np self) = self
   \<and> fst (get_circle_params_call np (snd (get_circle_params_call np self)))
       = fst (get_circle_params_call np self)
   \<and> (map position (take 3 (nodes self)) = map position (take 3 (nodes self'))
        \<longrightarrow> fst (get_circle_params_call np self) = fst (get_circle_params_call np self'))"
  using take3_positions [of self self' np] by (simp add: get_circle_params_call_def)

theorem get_circle_params_pure_witness:
  "map position (take 3 (nodes \<lparr>nodes = [\<lparr>position = (0 :: real, 0 :: real, 0 :: real)\<rparr>,
                                         \<lparr>position = (0, 1, 1)\<rparr>,
                                         \<lparr>position = (1, 0, 0)\<rparr>], color = True\<rparr>))
     = map position (take 3 (nodes \<lparr>nodes = [\<lparr>position = (0, 0, 0)\<rparr>, \<lparr>position = (0, 1, 1)\<rparr>,
                                         \<lparr>position = (1, 0, 0)\<rparr>, \<lparr>position = (5, 5, 5)\<rparr>],
                                       color = False\<rparr>))
   \<and> fst (get_circle_params_call exact \<lparr>nodes = [\<lparr>position = (0, 0, 0)\<rparr>, \<lparr>position = (0, 1, 1)\<rparr>,
                                         \<lparr>position = (1, 0, 0)\<rparr>], color = True\<rparr>)
     = fst (get_circle_params_call exact \<lparr>nodes = [\<lparr>position = (0, 0, 0)\<rparr>, \<lparr>position = (0, 1, 1)\<rparr>,
                                         \<lparr>position = (1, 0, 0)\<rparr>, \<lparr>position = (5, 5, 5)\<rparr>],
                                       color = False\<rparr>)
   \<and> snd (get_circle_params_call exact \<lparr>nodes = [\<lparr>position = (0, 0, 0)\<rparr>, \<lparr>position = (0, 1, 1)\<rparr>,
                                         \<lparr>position = (1, 0, 0)\<rparr>], color = True\<rparr>)
     = \<lparr>nodes = [\<lparr>position = (0, 0, 0)\<rparr>, \<lparr>position = (0, 1, 1)\<rparr>,
                 \<lparr>position = (1, 0, 0)\<rparr>], color = True\<rparr>"
proof -
  have p: "map position (take 3 (nodes \<lparr>nodes = [\<lparr>position = (0 :: real, 0 :: real, 0 :: real)\<rparr>,
                                         \<lparr>position = (0, 1, 1)\<rparr>,
                                         \<lparr>position = (1, 0, 0)\<rparr>], color = True\<rparr>))
     = map position (take 3 (nodes \<lparr>nodes = [\<lparr>position = (0, 0, 0)\<rparr>, \<lparr>position = (0, 1, 1)\<rparr>,
                                         \<lparr>position = (1, 0, 0)\<rparr>, \<lparr>position = (5, 5, 5)\<rparr>],
                                       color = False\<rparr>))"
    by (simp add: numeral_3_eq_3)
  from get_circle_params_pure [of exact "\<lparr>nodes = [\<lparr>position = (0, 0, 0)\<rparr>, \<lparr>position = (0, 1, 1)\<rparr>,
                                         \<lparr>position = (1, 0, 0)\<rparr>], color = True\<rparr>"
      "\<lparr>nodes = [\<lparr>position = (0, 0, 0)\<rparr>, \<lparr>position = (0, 1, 1)\<rparr>,
                                         \<lparr>position = (1, 0, 0)\<rparr>, \<lparr>position = (5, 5, 5)\<rparr>],
                                       color = False\<rparr>"] p
  show ?thesis by blast
qed

section \<open>Vector algebra in exact arithmetic\<close>

lemma dot_self_zero_iff: "dot u u = 0 \<longleftrightarrow> u = (0, 0, 0)"
proof (cases u)
  case (fields u1 u2 u3)
  have "u1 * u1 + u2 * u2 + u3 * u3 = 0 \<longleftrightarrow> u1 = 0 \<and> u2 = 0 \<and> u3 = 0"
    by (smt (verit) mult_eq_0_iff zero_le_square add_nonneg_eq_0_iff add_nonneg_nonneg)
  then show ?thesis using fields by simp
qed

lemma dot_self_nonneg: "0 \<le> dot u u"
  by (cases u) simp

lemma dot_commute: "dot u v = dot v u"
  by (cases u; cases v) simp

lemma dot_vdiv_right: "dot u (vdiv v s) = dot u v / s"
  by (cases u; cases v) (simp add: add_divide_distrib)

lemma cross_orth_left: "dot (cross u v) u = 0"
  by (cases u; cases v) (simp add: algebra_simps)

lemma cross_orth_right: "dot (cross u v) v = 0"
  by (cases u; cases v) (simp add: algebra_simps)

lemma lagrange_identity:
  "dot (cross u v) (cross u v) = dot u u * dot v v - (dot u v)\<^sup>2"
  by (cases u; cases v) (simp add: algebra_simps power2_eq_square)

lemma vnorm_zero_iff: "vnorm u = 0 \<longleftrightarrow> u = (0, 0, 0)"
  by (simp add: vnorm_def dot_self_zero_iff)

lemma vnorm_nonneg: "0 \<le> vnorm u"
  by (simp add: vnorm_def dot_self_nonneg)

lemma vnorm_sq: "(vnorm u)\<^sup>2 = dot u u"
  by (simp add: vnorm_def dot_self_nonneg)

lemma vnorm_unit_dot: "vnorm u = 1 \<Longrightarrow> dot u u = 1"
  using vnorm_sq [of u] by simp

lemma vnorm_axis:
  "vnorm (1, 0, 0) = 1" "vnorm (0, 1, 0) = 1" "vnorm (0, 0, 1) = 1"
  by (simp_all add: vnorm_def)

lemma vnorm_vdiv_self:
  assumes "u \<noteq> (0, 0, 0)"
  shows "vnorm (vdiv u (vnorm u)) = 1"
proof -
  obtain u1 u2 u3 where u: "u = (u1, u2, u3)" by (metis prod_cases3)
  define s where "s = vnorm u"
  have s0: "s \<noteq> 0" using assms by (simp add: s_def vnorm_zero_iff)
  have s2: "s * s = u1 * u1 + u2 * u2 + u3 * u3"
    using vnorm_sq [of u] by (simp add: s_def u power2_eq_square)
  have "dot (vdiv u s) (vdiv u s) = (u1 * u1 + u2 * u2 + u3 * u3) / (s * s)"
    by (simp add: u add_divide_distrib)
  also have "\<dots> = 1" using s0 by (simp add: s2 [symmetric])
  finally show ?thesis by (simp add: vnorm_def s_def)
qed

section \<open>The basis of the plane of the circle\<close>

lemma isclose_zero: "isclose x 0 \<longleftrightarrow> \<bar>x\<bar> \<le> atol"
  by (simp add: isclose_def)

lemma atol_pos: "0 < atol"
  by (simp add: atol_def)

lemma not_isclose_zero_nonzero: "\<not> isclose x 0 \<Longrightarrow> x \<noteq> 0"
  using atol_pos by (auto simp: isclose_zero)

lemma plane_basis_eq:
  "plane_basis (n1, n2, n3) =
     (let o1 = (if isclose n1 0 then (1, 0, 0)
                else if isclose n2 0 then (0, 1, 0)
                else if isclose n3 0 then (0, 0, 1)
                else (n2 * n3, - 2 * n1 * n3, n1 * n2))
      in (vdiv o1 (vnorm o1), cross (n1, n2, n3) (vdiv o1 (vnorm o1))))"
  by (simp add: plane_basis_def Let_def)

lemma plane_basis_general:
  assumes unit: "vnorm (n1, n2, n3) = 1"
    and pb: "plane_basis (n1, n2, n3) = (orth1, orth2)"
  shows "vnorm orth1 = 1" and "dot orth1 orth2 = 0" and "dot (n1, n2, n3) orth2 = 0"
    and "dot (n1, n2, n3) orth1 =
           (if isclose n1 0 then n1 else if isclose n2 0 then n2
            else if isclose n3 0 then n3 else 0)"
    and "(vnorm orth2)\<^sup>2 = 1 - (dot (n1, n2, n3) orth1)\<^sup>2"
    and "orth2 = cross (n1, n2, n3) orth1"
    and "isclose n1 0 \<Longrightarrow> orth1 = (1, 0, 0)"
    and "\<not> isclose n1 0 \<Longrightarrow> isclose n2 0 \<Longrightarrow> orth1 = (0, 1, 0)"
    and "\<not> isclose n1 0 \<Longrightarrow> \<not> isclose n2 0 \<Longrightarrow> isclose n3 0 \<Longrightarrow> orth1 = (0, 0, 1)"
proof -
  define o1 :: vec3 where "o1 = (if isclose n1 0 then (1, 0, 0)
                else if isclose n2 0 then (0, 1, 0)
                else if isclose n3 0 then (0, 0, 1)
                else (n2 * n3, - 2 * n1 * n3, n1 * n2))"
  have o1_ne: "o1 \<noteq> (0, 0, 0)"
    by (auto simp: o1_def dest: not_isclose_zero_nonzero)
  have orth1: "orth1 = vdiv o1 (vnorm o1)" and orth2: "orth2 = cross (n1, n2, n3) orth1"
    using pb by (auto simp add: plane_basis_eq o1_def Let_def)
  show u1: "vnorm orth1 = 1" unfolding orth1 by (rule vnorm_vdiv_self [OF o1_ne])
  show "dot orth1 orth2 = 0"
    unfolding orth2 using cross_orth_right [of "(n1, n2, n3)" orth1] by (simp add: dot_commute)
  show "dot (n1, n2, n3) orth2 = 0"
    unfolding orth2 using cross_orth_left [of "(n1, n2, n3)" orth1] by (simp add: dot_commute)
  show "dot (n1, n2, n3) orth1 =
             (if isclose n1 0 then n1 else if isclose n2 0 then n2
              else if isclose n3 0 then n3 else 0)"
    unfolding orth1 dot_vdiv_right o1_def by (simp add: vnorm_axis)
  show "(vnorm orth2)\<^sup>2 = 1 - (dot (n1, n2, n3) orth1)\<^sup>2"
    unfolding vnorm_sq orth2 lagrange_identity
    using vnorm_unit_dot [OF unit] vnorm_unit_dot [OF u1] by simp
  show "orth2 = cross (n1, n2, n3) orth1" by (rule orth2)
  show "isclose n1 0 \<Longrightarrow> orth1 = (1, 0, 0)"
    unfolding orth1 o1_def by (simp add: vnorm_axis)
  show "\<not> isclose n1 0 \<Longrightarrow> isclose n2 0 \<Longrightarrow> orth1 = (0, 1, 0)"
    unfolding orth1 o1_def by (simp add: vnorm_axis)
  show "\<not> isclose n1 0 \<Longrightarrow> \<not> isclose n2 0 \<Longrightarrow> isclose n3 0 \<Longrightarrow> orth1 = (0, 0, 1)"
    unfolding orth1 o1_def by (simp add: vnorm_axis)
qed

text \<open>
  C8. The fallback branches are chosen by \<open>np.isclose\<close>, so for a unit normal with a
  component that is close to zero and not zero the first basis vector is not orthogonal
  to the normal: for the unit vector \<open>(2 10^9, 10^18 - 1, 0) / (10^18 + 1)\<close> the
  first branch gives \<open>(1, 0, 0)\<close>, whose product with the normal is the first
  component.
\<close>

theorem plane_basis_orthonormal_counterexample:
  "vnorm (2 * 10 ^ 9 / (10 ^ 18 + 1), (10 ^ 18 - 1) / (10 ^ 18 + 1), 0) = 1
   \<and> fst (plane_basis (2 * 10 ^ 9 / (10 ^ 18 + 1), (10 ^ 18 - 1) / (10 ^ 18 + 1), 0)) = (1, 0, 0)
   \<and> dot (2 * 10 ^ 9 / (10 ^ 18 + 1), (10 ^ 18 - 1) / (10 ^ 18 + 1), 0)
          (fst (plane_basis (2 * 10 ^ 9 / (10 ^ 18 + 1), (10 ^ 18 - 1) / (10 ^ 18 + 1), 0)))
        = 2 * 10 ^ 9 / (10 ^ 18 + 1)
   \<and> dot (2 * 10 ^ 9 / (10 ^ 18 + 1), (10 ^ 18 - 1) / (10 ^ 18 + 1), 0)
          (fst (plane_basis (2 * 10 ^ 9 / (10 ^ 18 + 1), (10 ^ 18 - 1) / (10 ^ 18 + 1), 0)))
        \<noteq> 0"
  by (simp add: vnorm_def plane_basis_def isclose_def atol_def Let_def)

text \<open>
  C8, as amended. For a unit normal, \<open>orth1\<close> has length one and \<open>orth2\<close>, the cross
  product of the normal and \<open>orth1\<close>, is orthogonal to \<open>orth1\<close> and to the normal.
  \<open>orth1\<close> is the axis vector of the first component that is close to zero, when
  there is one, and its product with the normal is then that component, at most \<open>atol\<close>
  in magnitude; otherwise the product is zero. \<open>|orth2|^2 = 1 - (normal . orth1)^2\<close>,
  and \<open>orth1\<close> is orthogonal to the normal with \<open>orth2\<close> of length one exactly when
  the selecting component is zero or no component is close to zero.
\<close>

theorem plane_basis_orthonormal_within_tolerance:
  assumes unit: "vnorm (n1, n2, n3) = 1"
    and pb: "plane_basis (n1, n2, n3) = (orth1, orth2)"
  shows "vnorm orth1 = 1
       \<and> orth2 = cross (n1, n2, n3) orth1
       \<and> dot orth1 orth2 = 0
       \<and> dot (n1, n2, n3) orth2 = 0
       \<and> orth1 = (if isclose n1 0 then (1, 0, 0) else if isclose n2 0 then (0, 1, 0)
                   else if isclose n3 0 then (0, 0, 1)
                   else vdiv (n2 * n3, - 2 * n1 * n3, n1 * n2)
                          (vnorm (n2 * n3, - 2 * n1 * n3, n1 * n2)))
       \<and> dot (n1, n2, n3) orth1 =
           (if isclose n1 0 then n1 else if isclose n2 0 then n2
            else if isclose n3 0 then n3 else 0)
       \<and> \<bar>dot (n1, n2, n3) orth1\<bar> \<le> atol
       \<and> (vnorm orth2)\<^sup>2 = 1 - (dot (n1, n2, n3) orth1)\<^sup>2
       \<and> ((dot (n1, n2, n3) orth1 = 0 \<and> vnorm orth2 = 1)
            = (n1 = 0 \<or> \<not> isclose n1 0 \<and> (n2 = 0 \<or> \<not> isclose n2 0 \<and> (n3 = 0 \<or> \<not> isclose n3 0))))"
proof -
  note g = plane_basis_general [OF unit pb]
  have b: "\<bar>dot (n1, n2, n3) orth1\<bar> \<le> atol"
    unfolding g(4) using atol_pos by (simp add: isclose_zero)
  have o: "orth1 = (if isclose n1 0 then (1, 0, 0) else if isclose n2 0 then (0, 1, 0)
                   else if isclose n3 0 then (0, 0, 1)
                   else vdiv (n2 * n3, - 2 * n1 * n3, n1 * n2)
                          (vnorm (n2 * n3, - 2 * n1 * n3, n1 * n2)))"
    using pb by (auto simp add: plane_basis_eq Let_def vnorm_axis)
  have z: "(dot (n1, n2, n3) orth1 = 0)
        = (n1 = 0 \<or> \<not> isclose n1 0 \<and> (n2 = 0 \<or> \<not> isclose n2 0 \<and> (n3 = 0 \<or> \<not> isclose n3 0)))"
    unfolding g(4) using atol_pos by (auto simp: isclose_zero)
  have u: "vnorm orth2 = 1" if "dot (n1, n2, n3) orth1 = 0"
  proof -
    from that g(5) have "(vnorm orth2)\<^sup>2 = 1" by simp
    then show ?thesis using vnorm_nonneg [of orth2] by (simp add: power2_eq_1_iff)
  qed
  have e: "(dot (n1, n2, n3) orth1 = 0 \<and> vnorm orth2 = 1)
        = (n1 = 0 \<or> \<not> isclose n1 0 \<and> (n2 = 0 \<or> \<not> isclose n2 0 \<and> (n3 = 0 \<or> \<not> isclose n3 0)))"
    using z u by blast
  from g(1) g(6) g(2) g(3) o g(4) b g(5) e show ?thesis by blast
qed

theorem plane_basis_orthonormal_within_tolerance_witness:
  "vnorm (2 * 10 ^ 9 / (10 ^ 18 + 1), (10 ^ 18 - 1) / (10 ^ 18 + 1), 0) = 1
   \<and> isclose (2 * 10 ^ 9 / (10 ^ 18 + 1)) 0
   \<and> plane_basis (2 * 10 ^ 9 / (10 ^ 18 + 1), (10 ^ 18 - 1) / (10 ^ 18 + 1), 0)
       = ((1, 0, 0), (0, 0, - ((10 ^ 18 - 1) / (10 ^ 18 + 1))))
   \<and> vnorm (1, 0, 0) = 1
   \<and> dot (1, 0, 0) (0, 0, - ((10 ^ 18 - 1) / (10 ^ 18 + 1))) = 0
   \<and> dot (2 * 10 ^ 9 / (10 ^ 18 + 1), (10 ^ 18 - 1) / (10 ^ 18 + 1), 0)
          (0, 0, - ((10 ^ 18 - 1) / (10 ^ 18 + 1))) = 0
   \<and> dot (2 * 10 ^ 9 / (10 ^ 18 + 1), (10 ^ 18 - 1) / (10 ^ 18 + 1), 0) (1, 0, 0)
       = 2 * 10 ^ 9 / (10 ^ 18 + 1)
   \<and> (vnorm (0, 0, - ((10 ^ 18 - 1) / (10 ^ 18 + 1))))\<^sup>2 = 1 - (2 * 10 ^ 9 / (10 ^ 18 + 1))\<^sup>2
   \<and> vnorm (0, 0, - ((10 ^ 18 - 1) / (10 ^ 18 + 1))) \<noteq> 1
   \<and> vnorm (1 / 3, 2 / 3, 2 / 3) = 1
   \<and> \<not> isclose (1 / 3) 0 \<and> \<not> isclose (2 / 3) 0
   \<and> plane_basis (1 / 3, 2 / 3, 2 / 3) = ((2 / 3, - 2 / 3, 1 / 3), (2 / 3, 1 / 3, - 2 / 3))
   \<and> vnorm (2 / 3, - 2 / 3, 1 / 3) = 1
   \<and> vnorm (2 / 3, 1 / 3, - 2 / 3) = 1
   \<and> dot (2 / 3, - 2 / 3, 1 / 3) (2 / 3, 1 / 3, - 2 / 3) = 0
   \<and> dot (1 / 3, 2 / 3, 2 / 3) (2 / 3, - 2 / 3, 1 / 3) = 0
   \<and> dot (1 / 3, 2 / 3, 2 / 3) (2 / 3, 1 / 3, - 2 / 3) = 0"
proof -
  let ?n1 = "2 * 10 ^ 9 / (10 ^ 18 + 1) :: real" and ?n2 = "(10 ^ 18 - 1) / (10 ^ 18 + 1) :: real"
  have unit1: "vnorm (?n1, ?n2, 0) = 1"
    by (simp add: vnorm_def)
  have c1: "isclose ?n1 0"
    by (simp add: isclose_def atol_def)
  have nz: "?n1 \<noteq> 0" by simp
  have pb1: "plane_basis (?n1, ?n2, 0) = ((1, 0, 0), (0, 0, - ?n2))"
    using c1 by (simp add: plane_basis_def Let_def vnorm_def)
  note t1 = plane_basis_orthonormal_within_tolerance [OF unit1 pb1]
  note t1' = t1 [unfolded c1 [THEN eqTrueI] if_True]
  from t1' have f1: "vnorm (1, 0, 0) = 1" and f2: "dot (1, 0, 0) (0, 0, - ?n2) = 0"
    and f3: "dot (?n1, ?n2, 0) (0, 0, - ?n2) = 0" and f4: "dot (?n1, ?n2, 0) (1, 0, 0) = ?n1"
    and f5: "(vnorm (0, 0, - ?n2))\<^sup>2 = 1 - (dot (?n1, ?n2, 0) (1, 0, 0))\<^sup>2"
    by blast+
  have f6: "(vnorm (0, 0, - ?n2))\<^sup>2 = 1 - ?n1\<^sup>2"
    using f5 by (simp only: f4)
  have f7: "vnorm (0, 0, - ?n2) \<noteq> 1"
  proof
    assume "vnorm (0, 0, - ?n2) = 1"
    with f6 have "?n1\<^sup>2 = 0" by simp
    then show False by simp
  qed
  have f: "vnorm (1, 0, 0) = 1 \<and> dot (1, 0, 0) (0, 0, - ?n2) = 0
         \<and> dot (?n1, ?n2, 0) (0, 0, - ?n2) = 0 \<and> dot (?n1, ?n2, 0) (1, 0, 0) = ?n1
         \<and> (vnorm (0, 0, - ?n2))\<^sup>2 = 1 - ?n1\<^sup>2 \<and> vnorm (0, 0, - ?n2) \<noteq> 1"
    using f1 f2 f3 f4 f6 f7 by blast
  have s: "sqrt (4 / 9) = 2 / 3"
    by (rule real_sqrt_unique) (simp_all add: power2_eq_square)
  have unit2: "vnorm (1 / 3, 2 / 3, 2 / 3) = 1"
    by (simp add: vnorm_def)
  have c2: "\<not> isclose (1 / 3) 0" "\<not> isclose (2 / 3) 0"
    by (simp_all add: isclose_def atol_def)
  have pb2: "plane_basis (1 / 3, 2 / 3, 2 / 3) = ((2 / 3, - 2 / 3, 1 / 3), (2 / 3, 1 / 3, - 2 / 3))"
    by (simp add: plane_basis_def Let_def c2 vnorm_def s)
  note t2 = plane_basis_orthonormal_within_tolerance [OF unit2 pb2]
  have g: "vnorm (2 / 3, - 2 / 3, 1 / 3) = 1 \<and> vnorm (2 / 3, 1 / 3, - 2 / 3) = 1
         \<and> dot (2 / 3, - 2 / 3, 1 / 3) (2 / 3, 1 / 3, - 2 / 3) = 0
         \<and> dot (1 / 3, 2 / 3, 2 / 3) (2 / 3, - 2 / 3, 1 / 3) = 0
         \<and> dot (1 / 3, 2 / 3, 2 / 3) (2 / 3, 1 / 3, - 2 / 3) = 0"
    using t2 c2 by (simp del: dot.simps)
  from unit1 c1 pb1 f unit2 c2 pb2 g show ?thesis by blast
qed

section \<open>Line drawing\<close>

text \<open>
  C7. \<open>draw_line3d\<close> draws exactly one segment, between the two projections, when both
  endpoints have a projection, and leaves the surface as it was when either has none.
\<close>

theorem draw_line3d_both_or_nothing:
  "draw_line3d w2s screen camera col start end' width =
     (case (w2s camera start, w2s camera end') of
        (Some s, Some e) \<Rightarrow> screen @ [Line col s e width]
      | _ \<Rightarrow> screen)
   \<and> ((draw_line3d w2s screen camera col start end' width \<noteq> screen)
        = (w2s camera start \<noteq> None \<and> w2s camera end' \<noteq> None))"
  by (simp add: draw_line3d_def Let_def split: option.splits)

end
